theory Spec2Isabelle
  imports Main
begin

section \<open>The data model\<close>

text \<open>
  The program is the command-line entry point of the script generator: \<open>main\<close>,
  \<open>generateScript\<close>, \<open>getFallbackModel\<close>, \<open>displayScriptAndConfirm\<close>,
  \<open>installAlias\<close> and \<open>uninstallAlias\<close>. It calls the packages \<open>config\<close>,
  \<open>models\<close>, \<open>providers\<close> and \<open>ui\<close> and the operating system. What those calls
  return is a parameter of the model (the record \<open>env\<close> below), and every call is
  written to a trace, so that a theorem can say which calls a run makes, and in which
  order. The functions of package \<open>ui\<close> (the banner of \<open>ui/banner.go\<close>, the menus)
  only talk to the terminal; each call of one is one event.
\<close>

text \<open>
  A Go \<open>error\<close> value. The only things the program does with one are printing its
  message (\<open>%v\<close>) and asking \<open>os.IsNotExist\<close>.
\<close>

datatype error = Error string | NotExistError string

fun error_message :: "error \<Rightarrow> string" where
  "error_message (Error m) = m"
| "error_message (NotExistError m) = m"

fun os_IsNotExist :: "error \<Rightarrow> bool" where
  "os_IsNotExist (NotExistError m) = True"
| "os_IsNotExist (Error m) = False"

text \<open>
  \<open>types.ScriptRequest\<close>, with the four fields \<open>main\<close> fills in. The script type is
  kept as the string that names it.
\<close>

record ScriptRequest =
  TaskDescription :: string
  ScriptType :: string
  Provider :: string
  Model :: string

text \<open>
  \<open>types.ScriptResponse\<close>, with the fields \<open>displayScriptAndConfirm\<close> reads
  (\<open>response.TaskDescription\<close>, \<open>response.Model\<close>, \<open>response.Provider\<close>,
  \<open>response.ScriptType\<close>, \<open>response.Script\<close>).
\<close>

record ScriptResponse =
  resp_TaskDescription :: string
  resp_Model :: string
  resp_Provider :: string
  resp_ScriptType :: string
  resp_Script :: string

text \<open>
  Modelled from the spec: the constructors \<open>providers.NewOllamaProvider\<close>,
  \<open>providers.NewOpenAIProvider\<close> and \<open>providers.NewAnthropicProvider\<close> and the
  interface \<open>providers.Provider\<close>. The spec has three provider implementations, each
  built from the loaded configuration and each with the capabilities \<open>IsConfigured\<close>
  and \<open>GenerateScript\<close>. A provider instance is therefore the implementation together
  with the configuration its constructor received; what its two methods return is
  left to the environment (\<open>Provider_IsConfigured\<close>, \<open>Provider_GenerateScript\<close>).
\<close>

datatype provider_kind = Ollama | OpenAI | Anthropic

type_synonym 'cfg Provider = "provider_kind \<times> 'cfg"

definition providers_NewOllamaProvider :: "'cfg \<Rightarrow> 'cfg Provider" where
  "providers_NewOllamaProvider cfg = (Ollama, cfg)"

definition providers_NewOpenAIProvider :: "'cfg \<Rightarrow> 'cfg Provider" where
  "providers_NewOpenAIProvider cfg = (OpenAI, cfg)"

definition providers_NewAnthropicProvider :: "'cfg \<Rightarrow> 'cfg Provider" where
  "providers_NewAnthropicProvider cfg = (Anthropic, cfg)"

text \<open>
  What the program writes to standard output with \<open>fmt.Printf\<close>. Each constructor is
  one call site (\<open>GeneratorHeader\<close> and \<open>ScriptHeader\<close> are the three calls that draw
  a boxed title); the colour constants of package \<open>ui\<close> and the decorative glyphs of
  the format strings are not modelled, the values formatted into the line are.
  \<open>ScriptLine n l\<close> is line \<open>l\<close> of the script printed with its number \<open>n\<close>.
\<close>

datatype printed =
    InstallingAlias
  | FailedExecPath error
  | FailedCreatePls error
  | WarnFailedCreateOl error
  | CreatedPls
  | CreatedOl
  | RemovingAliases
  | PlsNotFound
  | FailedRemovePls error
  | RemovedPls
  | OlNotFound
  | FailedRemoveOl error
  | RemovedOl
  | GeneratorHeader
  | TaskLine string
  | ModelLine string string
  | PlatformLine string
  | ScriptHeader
  | ScriptLine nat string
  | GeneratedOk

text \<open>
  The observable steps of a run, in the order they happen: output, and the calls into
  the packages outside the sources at hand.
\<close>

datatype 'cfg event =
    Stdout printed
  | Stderr string
  | UiPrintRainbowBanner
  | UiPrintInstallationSuccess
  | UiShowVersion
  | UiShowHelp
  | UiShowMainMenu
  | UiShowScriptMenu ScriptResponse
  | ConfigLoad
  | ConfigCreateDefault
  | ConfigSave 'cfg
  | ConfigDetermineScriptType 'cfg
  | ConfigDetermineProvider 'cfg
  | ModelsSelectBestModel 'cfg string string
  | NewProvider "'cfg Provider"
  | CallIsConfigured "'cfg Provider" 'cfg
  | CallGenerateScript "'cfg Provider" ScriptRequest

text \<open>
  The mutable world: the files the alias commands write and remove (path to contents),
  and the trace of events so far.
\<close>

record 'cfg world =
  files :: "string \<rightharpoonup> string"
  trace :: "'cfg event list"

text \<open>
  The environment of one run: the command line, and the results of the operating
  system and of the packages \<open>config\<close>, \<open>models\<close> and \<open>providers\<close>. The type
  \<open>'cfg\<close> is \<open>types.Config\<close>, of which the program only passes values on.
  \<open>filepath.Dir\<close> and \<open>filepath.Join\<close> depend on the platform and are parameters
  too.
  \<open>os_write_error p\<close> is the error with which writing the file \<open>p\<close> fails, if it
  does (a directory that is missing or not writable); \<open>os_remove_error p\<close> is the
  error with which removing \<open>p\<close> fails for a reason of the operating system.
\<close>

record 'cfg env =
  os_Args :: "string list"
  os_Executable :: "error + string"
  filepath_Dir :: "string \<Rightarrow> string"
  filepath_Join :: "string \<Rightarrow> string \<Rightarrow> string"
  os_write_error :: "string \<Rightarrow> error option"
  os_remove_error :: "string \<Rightarrow> error option"
  config_Load :: "error + 'cfg"
  config_CreateDefault :: "'cfg"
  config_Save :: "'cfg \<Rightarrow> error option"
  config_DetermineScriptType :: "'cfg \<Rightarrow> string"
  config_DetermineProvider :: "'cfg \<Rightarrow> string"
  models_SelectBestModel :: "'cfg \<Rightarrow> string \<Rightarrow> string \<Rightarrow> error + string"
  Provider_IsConfigured :: "'cfg Provider \<Rightarrow> 'cfg \<Rightarrow> bool"
  Provider_GenerateScript :: "'cfg Provider \<Rightarrow> ScriptRequest \<Rightarrow> error + ScriptResponse"

text \<open>How \<open>main\<close> ends: it returns, it calls \<open>os.Exit\<close>, or it panics.\<close>

datatype outcome = Returned | Exited nat | Panicked

fun exit_status :: "outcome \<Rightarrow> nat" where
  "exit_status Returned = 0"
| "exit_status (Exited n) = n"
| "exit_status Panicked = 2"

section \<open>The operations\<close>

definition emit :: "'cfg event \<Rightarrow> 'cfg world \<Rightarrow> 'cfg world" where
  "emit ev w = w\<lparr>trace := trace w @ [ev]\<rparr>"

text \<open>
  \<open>os.WriteFile\<close>: creates the file, or replaces the contents of the file that is
  there (it opens with create and truncate, an existing file is no error), or fails
  with the error of the environment and changes nothing.
\<close>

definition os_WriteFile ::
  "'cfg env \<Rightarrow> string \<Rightarrow> string \<Rightarrow> 'cfg world \<Rightarrow> error option \<times> 'cfg world" where
  "os_WriteFile env path content w =
     (case os_write_error env path of
        Some err \<Rightarrow> (Some err, w)
      | None \<Rightarrow> (None, w\<lparr>files := (files w)(path \<mapsto> content)\<rparr>))"

text \<open>
  \<open>os.Remove\<close>: fails with an error of the operating system, or with a not-exist error
  when there is no such file, and removes the file otherwise.
\<close>

definition os_Remove ::
  "'cfg env \<Rightarrow> string \<Rightarrow> 'cfg world \<Rightarrow> error option \<times> 'cfg world" where
  "os_Remove env path w =
     (case os_remove_error env path of
        Some err \<Rightarrow> (Some err, w)
      | None \<Rightarrow>
          (case files w path of
             None \<Rightarrow> (Some (NotExistError (''remove '' @ path @ '': file does not exist'')), w)
           | Some content \<Rightarrow> (None, w\<lparr>files := (files w)(path := None)\<rparr>)))"

text \<open>\<open>strings.Join\<close>.\<close>

fun strings_Join :: "string list \<Rightarrow> string \<Rightarrow> string" where
  "strings_Join [] sep = []"
| "strings_Join [x] sep = x"
| "strings_Join (x # y # ys) sep = x @ sep @ strings_Join (y # ys) sep"

text \<open>\<open>strings.Split\<close> at a separator of one character.\<close>

fun strings_Split :: "string \<Rightarrow> char \<Rightarrow> string list" where
  "strings_Split [] sep = [[]]"
| "strings_Split (c # cs) sep =
     (if c = sep then [] # strings_Split cs sep
      else (case strings_Split cs sep of
              [] \<Rightarrow> [[c]]
            | l # ls \<Rightarrow> (c # l) # ls))"

text \<open>\<open>getFallbackModel\<close>: the fallback model of a provider.\<close>

definition getFallbackModel :: "string \<Rightarrow> string" where
  "getFallbackModel provider =
     (if provider = ''openai'' then ''gpt-3.5-turbo''
      else if provider = ''anthropic'' then ''claude-3-haiku-20240307''
      else ''llama3.2'')"

text \<open>
  \<open>generateScript\<close>: the switch over the provider name, the configuration check, the
  call of the provider.
\<close>

definition generateScript ::
  "'cfg env \<Rightarrow> 'cfg \<Rightarrow> ScriptRequest \<Rightarrow> 'cfg world
     \<Rightarrow> (error + ScriptResponse) \<times> 'cfg world" where
  "generateScript env cfg request w =
     (case (if Provider request = ''ollama'' then Some (providers_NewOllamaProvider cfg)
            else if Provider request = ''openai'' then Some (providers_NewOpenAIProvider cfg)
            else if Provider request = ''anthropic''
              then Some (providers_NewAnthropicProvider cfg)
            else None) of
        None \<Rightarrow> (Inl (Error (''unsupported provider: '' @ Provider request)), w)
      | Some provider \<Rightarrow>
          (let w1 = emit (NewProvider provider) w;
               w2 = emit (CallIsConfigured provider cfg) w1
           in if \<not> Provider_IsConfigured env provider cfg
              then (Inl (Error (''provider '' @ Provider request
                                  @ '' is not properly configured'')), w2)
              else (Provider_GenerateScript env provider request,
                    emit (CallGenerateScript provider request) w2)))"

text \<open>
  \<open>displayScriptAndConfirm\<close>: the header, the numbered lines of the script, the menu.
\<close>

definition displayScriptAndConfirm :: "ScriptResponse \<Rightarrow> 'cfg world \<Rightarrow> 'cfg world" where
  "displayScriptAndConfirm response w =
     (let lines = strings_Split (resp_Script response) (CHR 0x0A)
      in w\<lparr>trace := trace w
            @ [Stdout GeneratorHeader,
               Stdout (TaskLine (resp_TaskDescription response)),
               Stdout (ModelLine (resp_Model response) (resp_Provider response)),
               Stdout (PlatformLine (resp_ScriptType response)),
               Stdout ScriptHeader]
            @ map (\<lambda>(i, line). Stdout (ScriptLine (i + 1) line)) (enumerate 0 lines)
            @ [Stdout GeneratedOk, UiShowScriptMenu response]\<rparr>)"

text \<open>The contents of the shim: \<open>@echo off\<close>, then the quoted executable and \<open>%*\<close>.\<close>

definition batContent :: "string \<Rightarrow> string" where
  "batContent execPath =
     ''@echo off'' @ [CHR 0x0A, CHR 0x22] @ execPath @ [CHR 0x22] @ '' %*'' @ [CHR 0x0A]"

text \<open>\<open>installAlias\<close>: writes \<open>pls.bat\<close> and \<open>ol.bat\<close> beside the executable.\<close>

definition installAlias :: "'cfg env \<Rightarrow> 'cfg world \<Rightarrow> 'cfg world" where
  "installAlias env w =
     (let w1 = emit (Stdout InstallingAlias) (emit UiPrintRainbowBanner w)
      in case os_Executable env of
           Inl err \<Rightarrow> emit (Stdout (FailedExecPath err)) w1
         | Inr execPath \<Rightarrow>
             (let dir = filepath_Dir env execPath;
                  plsBatPath = filepath_Join env dir ''pls.bat''
              in case os_WriteFile env plsBatPath (batContent execPath) w1 of
                   (Some err, w2) \<Rightarrow> emit (Stdout (FailedCreatePls err)) w2
                 | (None, w2) \<Rightarrow>
                     (let olBatPath = filepath_Join env dir ''ol.bat'';
                          w4 = (case os_WriteFile env olBatPath (batContent execPath) w2 of
                                  (Some err, w3) \<Rightarrow> emit (Stdout (WarnFailedCreateOl err)) w3
                                | (None, w3) \<Rightarrow> w3)
                      in emit UiPrintInstallationSuccess
                           (emit (Stdout CreatedOl) (emit (Stdout CreatedPls) w4)))))"

text \<open>\<open>uninstallAlias\<close>: removes \<open>pls.bat\<close> and \<open>ol.bat\<close> beside the executable.\<close>

definition uninstallAlias :: "'cfg env \<Rightarrow> 'cfg world \<Rightarrow> 'cfg world" where
  "uninstallAlias env w =
     (let w1 = emit (Stdout RemovingAliases) (emit UiPrintRainbowBanner w)
      in case os_Executable env of
           Inl err \<Rightarrow> emit (Stdout (FailedExecPath err)) w1
         | Inr execPath \<Rightarrow>
             (let dir = filepath_Dir env execPath;
                  plsBatPath = filepath_Join env dir ''pls.bat'';
                  w3 = (case os_Remove env plsBatPath w1 of
                          (Some err, w2) \<Rightarrow>
                            (if os_IsNotExist err then emit (Stdout PlsNotFound) w2
                             else emit (Stdout (FailedRemovePls err)) w2)
                        | (None, w2) \<Rightarrow> emit (Stdout RemovedPls) w2);
                  olBatPath = filepath_Join env dir ''ol.bat''
              in case os_Remove env olBatPath w3 of
                   (Some err, w4) \<Rightarrow>
                     (if os_IsNotExist err then emit (Stdout OlNotFound) w4
                      else emit (Stdout (FailedRemoveOl err)) w4)
                 | (None, w4) \<Rightarrow> emit (Stdout RemovedOl) w4))"

text \<open>
  \<open>main\<close>, in the order of the source. Three stretches of it are definitions of their
  own, so that what they compute can be named: loading the configuration, resolving
  the model, and building the request.
\<close>

text \<open>
  \<open>main\<close>, "Load configuration": \<open>config.Load\<close>, and on an error
  \<open>config.CreateDefault\<close> and \<open>config.Save\<close>, whose result is not looked at.
\<close>

definition main_loadConfig :: "'cfg env \<Rightarrow> 'cfg world \<Rightarrow> 'cfg \<times> 'cfg world" where
  "main_loadConfig env w =
     (case config_Load env of
        Inr cfg \<Rightarrow> (cfg, emit ConfigLoad w)
      | Inl err \<Rightarrow>
          (let cfg = config_CreateDefault env;
               w1 = emit ConfigCreateDefault (emit ConfigLoad w);
               saved = config_Save env cfg
           in (cfg, emit (ConfigSave cfg) w1)))"

text \<open>
  \<open>main\<close>, "Select the best model for the task": \<open>models.SelectBestModel\<close>, and on an
  error the warning on standard error and the fallback model.
\<close>

definition main_selectModel ::
  "'cfg env \<Rightarrow> 'cfg \<Rightarrow> string \<Rightarrow> string \<Rightarrow> 'cfg world \<Rightarrow> string \<times> 'cfg world" where
  "main_selectModel env cfg taskDescription provider w =
     (let w1 = emit (ModelsSelectBestModel cfg taskDescription provider) w
      in case models_SelectBestModel env cfg taskDescription provider of
           Inr model \<Rightarrow> (model, w1)
         | Inl err \<Rightarrow>
             (getFallbackModel provider,
              emit (Stderr (''Warning: Could not auto-select model (''
                              @ error_message err @ ''), using fallback'' @ [CHR 0x0A])) w1))"

text \<open>
  \<open>main\<close>, from joining the arguments to the request: the task description, the
  configuration, the script type, the provider, the model, the request.
\<close>

definition main_buildRequest ::
  "'cfg env \<Rightarrow> 'cfg world \<Rightarrow> 'cfg \<times> ScriptRequest \<times> 'cfg world" where
  "main_buildRequest env w =
     (let taskDescription = strings_Join (tl (os_Args env)) '' ''
      in case main_loadConfig env w of
           (cfg, w1) \<Rightarrow>
             (let scriptType = config_DetermineScriptType env cfg;
                  w2 = emit (ConfigDetermineScriptType cfg) w1;
                  provider = config_DetermineProvider env cfg;
                  w3 = emit (ConfigDetermineProvider cfg) w2
              in case main_selectModel env cfg taskDescription provider w3 of
                   (model, w4) \<Rightarrow>
                     (cfg,
                      \<lparr>TaskDescription = taskDescription, ScriptType = scriptType,
                       Provider = provider, Model = model\<rparr>,
                      w4)))"

text \<open>
  \<open>main\<close>, "Generate script using the appropriate provider": on an error the message
  on standard error and \<open>os.Exit(1)\<close>, otherwise the display of the response.
\<close>

definition main_generate ::
  "'cfg env \<Rightarrow> 'cfg \<Rightarrow> ScriptRequest \<Rightarrow> 'cfg world \<Rightarrow> 'cfg world \<times> outcome" where
  "main_generate env cfg request w =
     (case generateScript env cfg request w of
        (Inl err, w1) \<Rightarrow>
          (emit (Stderr (''Error: '' @ error_message err @ [CHR 0x0A])) w1, Exited 1)
      | (Inr response, w1) \<Rightarrow> (displayScriptAndConfirm response w1, Returned))"

text \<open>
  \<open>main\<close>. \<open>os.Args[0]\<close> is read first (the program name, which is then not used), and
  panics when there is no argument at all. The special commands are looked for in
  \<open>os.Args[1]\<close> only.
\<close>

definition main :: "'cfg env \<Rightarrow> 'cfg world \<Rightarrow> 'cfg world \<times> outcome" where
  "main env w =
     (let args = os_Args env
      in if args = [] then (w, Panicked)
         else if 2 \<le> length args \<and> args ! 1 = ''--install-alias''
           then (installAlias env w, Returned)
         else if 2 \<le> length args \<and> args ! 1 = ''--uninstall-alias''
           then (uninstallAlias env w, Returned)
         else if 2 \<le> length args \<and> args ! 1 = ''--version''
           then (emit UiShowVersion w, Returned)
         else if 2 \<le> length args \<and> (args ! 1 = ''--help'' \<or> args ! 1 = ''-h'')
           then (emit UiShowHelp w, Returned)
         else if length args < 2
           then (emit UiShowMainMenu w, Returned)
         else (case main_buildRequest env w of
                 (cfg, request, w1) \<Rightarrow> main_generate env cfg request w1))"

section \<open>Notions used in the statements\<close>

text \<open>The case labels of the switch over \<open>os.Args[1]\<close> in \<open>main\<close>.\<close>

definition special_commands :: "string list" where
  "special_commands =
     [''--install-alias'', ''--uninstall-alias'', ''--version'', ''--help'', ''-h'']"

text \<open>
  The events of the generation pipeline: loading or saving the configuration,
  selecting a model, constructing or calling a provider.
\<close>

fun is_pipeline_event :: "'cfg event \<Rightarrow> bool" where
  "is_pipeline_event ConfigLoad = True"
| "is_pipeline_event ConfigCreateDefault = True"
| "is_pipeline_event (ConfigSave cfg) = True"
| "is_pipeline_event (ConfigDetermineScriptType cfg) = True"
| "is_pipeline_event (ConfigDetermineProvider cfg) = True"
| "is_pipeline_event (ModelsSelectBestModel cfg t p) = True"
| "is_pipeline_event (NewProvider p) = True"
| "is_pipeline_event (CallIsConfigured p cfg) = True"
| "is_pipeline_event (CallGenerateScript p r) = True"
| "is_pipeline_event ev = False"

text \<open>The events with which a provider is constructed, asked or called.\<close>

fun is_provider_event :: "'cfg event \<Rightarrow> bool" where
  "is_provider_event (NewProvider p) = True"
| "is_provider_event (CallIsConfigured p cfg) = True"
| "is_provider_event (CallGenerateScript p r) = True"
| "is_provider_event ev = False"

text \<open>The events of \<open>displayScriptAndConfirm\<close>: output of the response, and the menu.\<close>

fun is_display_event :: "'cfg event \<Rightarrow> bool" where
  "is_display_event (Stdout p) = True"
| "is_display_event (UiShowScriptMenu r) = True"
| "is_display_event ev = False"

text \<open>The events with which a special command is handled.\<close>

fun is_command_event :: "'cfg event \<Rightarrow> bool" where
  "is_command_event UiPrintRainbowBanner = True"
| "is_command_event UiPrintInstallationSuccess = True"
| "is_command_event UiShowVersion = True"
| "is_command_event UiShowHelp = True"
| "is_command_event UiShowMainMenu = True"
| "is_command_event ev = False"

text \<open>
  The failure messages of \<open>installAlias\<close>: the executable path is not known, or
  \<open>pls.bat\<close> was not created. (A failure to create \<open>ol.bat\<close> is a warning of the
  source, after which it reports success.)
\<close>

fun is_install_failure :: "'cfg event \<Rightarrow> bool" where
  "is_install_failure (Stdout (FailedExecPath err)) = True"
| "is_install_failure (Stdout (FailedCreatePls err)) = True"
| "is_install_failure ev = False"

section \<open>A concrete environment\<close>

text \<open>
  An environment on which the theorems below are instantiated: a configuration is the
  name of its provider, paths are joined with a slash, every file operation is
  permitted, and a provider echoes the request into its response.
\<close>

definition slash_Dir :: "string \<Rightarrow> string" where
  "slash_Dir path = rev (tl (dropWhile (\<lambda>c. c \<noteq> CHR ''/'') (rev path)))"

definition slash_Join :: "string \<Rightarrow> string \<Rightarrow> string" where
  "slash_Join dir name = dir @ ''/'' @ name"

definition echo_response :: "ScriptRequest \<Rightarrow> ScriptResponse" where
  "echo_response request =
     \<lparr>resp_TaskDescription = TaskDescription request, resp_Model = Model request,
      resp_Provider = Provider request, resp_ScriptType = ScriptType request,
      resp_Script = ''echo hello''\<rparr>"

definition sample_env :: "string env" where
  "sample_env =
     \<lparr>os_Args = [''pls'', ''create'', ''a'', ''hello'', ''world'', ''script''],
      os_Executable = Inr ''/opt/please/please'',
      filepath_Dir = slash_Dir,
      filepath_Join = slash_Join,
      os_write_error = (\<lambda>path. None),
      os_remove_error = (\<lambda>path. None),
      config_Load = Inr ''ollama'',
      config_CreateDefault = ''ollama'',
      config_Save = (\<lambda>cfg. None),
      config_DetermineScriptType = (\<lambda>cfg. ''bash''),
      config_DetermineProvider = (\<lambda>cfg. cfg),
      models_SelectBestModel = (\<lambda>cfg task provider. Inr ''codellama''),
      Provider_IsConfigured = (\<lambda>provider cfg. True),
      Provider_GenerateScript = (\<lambda>provider request. Inr (echo_response request))\<rparr>"

definition empty_world :: "string world" where
  "empty_world = \<lparr>files = Map.empty, trace = []\<rparr>"

section \<open>What the parts of the program do to the world\<close>

lemma trace_emit: "trace (emit ev w) = trace w @ [ev]"
  by (simp add: emit_def)

lemma main_normal_path:
  assumes "2 \<le> length (os_Args env)" and "os_Args env ! 1 \<notin> set special_commands"
  shows "main env w = (case main_buildRequest env w of
                         (cfg, request, w1) \<Rightarrow> main_generate env cfg request w1)"
proof -
  from assms(1) have "os_Args env \<noteq> []" by auto
  with assms show ?thesis
    by (simp add: main_def special_commands_def Let_def)
qed

lemma generateScript_trace:
  "\<exists>evs. trace (snd (generateScript env cfg request w)) = trace w @ evs
         \<and> (\<forall>ev \<in> set evs. is_provider_event ev)"
  by (simp add: generateScript_def Let_def trace_emit)

lemma main_loadConfig_trace:
  "\<exists>evs. trace (snd (main_loadConfig env w)) = trace w @ evs
         \<and> (\<forall>ev \<in> set evs. is_pipeline_event ev \<and> \<not> is_provider_event ev)"
  by (simp add: main_loadConfig_def Let_def trace_emit split: sum.splits)

lemma main_selectModel_trace:
  "\<exists>evs. trace (snd (main_selectModel env cfg t p w)) = trace w @ evs
         \<and> (\<forall>ev \<in> set evs. \<not> is_display_event ev \<and> \<not> is_command_event ev
                \<and> \<not> is_provider_event ev)"
  by (simp add: main_selectModel_def Let_def trace_emit split: sum.splits)

lemma main_buildRequest_trace:
  "\<exists>evs. trace (snd (snd (main_buildRequest env w))) = trace w @ evs
         \<and> (\<forall>ev \<in> set evs. \<not> is_display_event ev \<and> \<not> is_command_event ev
                \<and> \<not> is_provider_event ev)"
  by (simp add: main_buildRequest_def main_loadConfig_def main_selectModel_def
      Let_def trace_emit split: sum.splits prod.splits)

lemma os_WriteFile_config_Save:
  "os_WriteFile (env\<lparr>config_Save := save\<rparr>) = os_WriteFile env"
  by (simp add: os_WriteFile_def fun_eq_iff)

lemma os_Remove_config_Save:
  "os_Remove (env\<lparr>config_Save := save\<rparr>) = os_Remove env"
  by (simp add: os_Remove_def fun_eq_iff)

lemma installAlias_config_Save:
  "installAlias (env\<lparr>config_Save := save\<rparr>) w = installAlias env w"
  by (simp add: installAlias_def os_WriteFile_config_Save Let_def
      split: sum.splits prod.splits option.splits)

lemma uninstallAlias_config_Save:
  "uninstallAlias (env\<lparr>config_Save := save\<rparr>) w = uninstallAlias env w"
  by (simp add: uninstallAlias_def os_Remove_config_Save Let_def
      split: sum.splits prod.splits option.splits)

lemma main_loadConfig_config_Save:
  "main_loadConfig (env\<lparr>config_Save := save\<rparr>) w = main_loadConfig env w"
  by (simp add: main_loadConfig_def Let_def split: sum.splits)

lemma main_selectModel_config_Save:
  "main_selectModel (env\<lparr>config_Save := save\<rparr>) cfg t p w = main_selectModel env cfg t p w"
  by (simp add: main_selectModel_def Let_def split: sum.splits)

lemma main_buildRequest_config_Save:
  "main_buildRequest (env\<lparr>config_Save := save\<rparr>) w = main_buildRequest env w"
  by (simp add: main_buildRequest_def main_loadConfig_config_Save main_selectModel_config_Save
      Let_def split: prod.splits)

lemma generateScript_config_Save:
  "generateScript (env\<lparr>config_Save := save\<rparr>) cfg request w = generateScript env cfg request w"
  by (simp add: generateScript_def Let_def split: option.splits)

lemma main_generate_config_Save:
  "main_generate (env\<lparr>config_Save := save\<rparr>) cfg request w = main_generate env cfg request w"
  by (simp add: main_generate_def generateScript_config_Save split: prod.splits sum.splits)

lemma installAlias_no_executable:
  "os_Executable env = Inl err
     \<Longrightarrow> installAlias env w
         = w\<lparr>trace := trace w @ [UiPrintRainbowBanner, Stdout InstallingAlias,
                                  Stdout (FailedExecPath err)]\<rparr>"
  by (simp add: installAlias_def emit_def)

lemma installAlias_pls_failed:
  "os_Executable env = Inr execPath
     \<Longrightarrow> os_write_error env (filepath_Join env (filepath_Dir env execPath) ''pls.bat'') = Some err
     \<Longrightarrow> installAlias env w
         = w\<lparr>trace := trace w @ [UiPrintRainbowBanner, Stdout InstallingAlias,
                                  Stdout (FailedCreatePls err)]\<rparr>"
  by (simp add: installAlias_def os_WriteFile_def emit_def Let_def)

lemma installAlias_pls_written:
  "os_Executable env = Inr execPath
     \<Longrightarrow> os_write_error env (filepath_Join env (filepath_Dir env execPath) ''pls.bat'') = None
     \<Longrightarrow> installAlias env w
         = w\<lparr>files :=
               (case os_write_error env (filepath_Join env (filepath_Dir env execPath) ''ol.bat'') of
                  None \<Rightarrow>
                    (files w)(filepath_Join env (filepath_Dir env execPath) ''pls.bat''
                                \<mapsto> batContent execPath,
                              filepath_Join env (filepath_Dir env execPath) ''ol.bat''
                                \<mapsto> batContent execPath)
                | Some err \<Rightarrow>
                    (files w)(filepath_Join env (filepath_Dir env execPath) ''pls.bat''
                                \<mapsto> batContent execPath)),
             trace := trace w @ [UiPrintRainbowBanner, Stdout InstallingAlias]
               @ (case os_write_error env
                         (filepath_Join env (filepath_Dir env execPath) ''ol.bat'') of
                    None \<Rightarrow> []
                  | Some err \<Rightarrow> [Stdout (WarnFailedCreateOl err)])
               @ [Stdout CreatedPls, Stdout CreatedOl, UiPrintInstallationSuccess]\<rparr>"
  by (simp add: installAlias_def os_WriteFile_def emit_def Let_def split: option.splits)

lemma os_Remove_not_exist:
  "fst (os_Remove env path w) = Some err
     \<Longrightarrow> os_Remove env path (w\<lparr>trace := t\<rparr>) = (Some err, w\<lparr>trace := t\<rparr>)"
  by (auto simp add: os_Remove_def split: option.splits)

lemma installAlias_trace:
  "\<exists>evs. trace (installAlias env w) = trace w @ evs
         \<and> (\<forall>ev \<in> set evs. \<not> is_pipeline_event ev)"
  by (auto simp add: installAlias_def os_WriteFile_def emit_def Let_def
      split: sum.splits option.splits)

lemma uninstallAlias_trace:
  "\<exists>evs. trace (uninstallAlias env w) = trace w @ evs
         \<and> (\<forall>ev \<in> set evs. \<not> is_pipeline_event ev)"
  by (auto simp add: uninstallAlias_def os_Remove_def emit_def Let_def
      split: sum.splits option.splits)

lemma displayScriptAndConfirm_trace:
  "\<exists>evs. trace (displayScriptAndConfirm response w) = trace w @ evs
         \<and> (\<forall>ev \<in> set evs. \<not> is_command_event ev)"
  by (auto simp add: displayScriptAndConfirm_def Let_def)

lemma provider_event_not_command: "is_provider_event ev \<Longrightarrow> \<not> is_command_event ev"
  by (cases ev) simp_all

lemma main_generate_trace:
  "\<exists>evs. trace (fst (main_generate env cfg request w)) = trace w @ evs
         \<and> (\<forall>ev \<in> set evs. \<not> is_command_event ev)"
proof -
  obtain r w1 where g: "generateScript env cfg request w = (r, w1)"
    by (cases "generateScript env cfg request w")
  with generateScript_trace [of env cfg request w]
  obtain evs1 where e1: "trace w1 = trace w @ evs1"
    and n1: "\<forall>ev \<in> set evs1. \<not> is_command_event ev"
    by (auto dest: provider_event_not_command)
  show ?thesis
  proof (cases r)
    case (Inl err)
    with g e1 n1 show ?thesis
      by (simp add: main_generate_def trace_emit)
  next
    case (Inr response)
    from displayScriptAndConfirm_trace [of response w1]
    obtain evs2 where e2: "trace (displayScriptAndConfirm response w1) = trace w1 @ evs2"
      and n2: "\<forall>ev \<in> set evs2. \<not> is_command_event ev" by auto
    have "trace (fst (main_generate env cfg request w)) = trace w @ (evs1 @ evs2)"
      using g Inr e1 e2 by (simp add: main_generate_def)
    moreover have "\<forall>ev \<in> set (evs1 @ evs2). \<not> is_command_event ev"
      using n1 n2 by auto
    ultimately show ?thesis by blast
  qed
qed

section \<open>The claims\<close>

subsection \<open>C1\<close>

text \<open>
  Claim C1. For every provider name other than \<open>ollama\<close>, \<open>openai\<close> and
  \<open>anthropic\<close>, \<open>generateScript\<close> returns the error "unsupported provider: NAME" and
  leaves the world as it was: no provider is constructed, \<open>IsConfigured\<close> is not
  called, \<open>GenerateScript\<close> is not called.
\<close>

theorem generateScript_unsupported_provider:
  assumes "Provider request \<notin> {''ollama'', ''openai'', ''anthropic''}"
  shows "generateScript env cfg request w
           = (Inl (Error (''unsupported provider: '' @ Provider request)), w)
         \<and> trace (snd (generateScript env cfg request w)) = trace w"
  using assms by (simp add: generateScript_def)

theorem generateScript_unsupported_provider_witness:
  "generateScript sample_env ''gemini''
     \<lparr>TaskDescription = ''list files'', ScriptType = ''bash'', Provider = ''gemini'',
      Model = ''llama3.2''\<rparr> empty_world
   = (Inl (Error ''unsupported provider: gemini''), empty_world)"
  using generateScript_unsupported_provider
    [of "\<lparr>TaskDescription = ''list files'', ScriptType = ''bash'', Provider = ''gemini'',
      Model = ''llama3.2''\<rparr>" sample_env "''gemini''" empty_world]
  by simp

subsection \<open>C2\<close>

text \<open>
  Claim C2. For a request that names one of the three providers, when that provider's
  \<open>IsConfigured\<close> returns false, \<open>generateScript\<close> returns the error
  "provider NAME is not properly configured"; the provider was constructed and asked,
  and \<open>GenerateScript\<close> was not called on any provider.
\<close>

theorem generateScript_not_configured:
  assumes "(Provider request = ''ollama'' \<and> kind = Ollama)
           \<or> (Provider request = ''openai'' \<and> kind = OpenAI)
           \<or> (Provider request = ''anthropic'' \<and> kind = Anthropic)"
    and "\<not> Provider_IsConfigured env (kind, cfg) cfg"
  shows "fst (generateScript env cfg request w)
           = Inl (Error (''provider '' @ Provider request @ '' is not properly configured''))
         \<and> trace (snd (generateScript env cfg request w))
           = trace w @ [NewProvider (kind, cfg), CallIsConfigured (kind, cfg) cfg]
         \<and> (\<forall>p r. CallGenerateScript p r
                \<notin> set (drop (length (trace w)) (trace (snd (generateScript env cfg request w)))))"
  using assms
  by (auto simp add: generateScript_def Let_def trace_emit providers_NewOllamaProvider_def
      providers_NewOpenAIProvider_def providers_NewAnthropicProvider_def)

theorem generateScript_not_configured_witness:
  "fst (generateScript (sample_env\<lparr>Provider_IsConfigured := (\<lambda>p c. fst p \<noteq> OpenAI)\<rparr>)
          ''openai''
          \<lparr>TaskDescription = ''list files'', ScriptType = ''bash'', Provider = ''openai'',
           Model = ''gpt-4''\<rparr> empty_world)
   = Inl (Error ''provider openai is not properly configured'')
   \<and> trace (snd (generateScript (sample_env\<lparr>Provider_IsConfigured := (\<lambda>p c. fst p \<noteq> OpenAI)\<rparr>)
          ''openai''
          \<lparr>TaskDescription = ''list files'', ScriptType = ''bash'', Provider = ''openai'',
           Model = ''gpt-4''\<rparr> empty_world))
   = [NewProvider (OpenAI, ''openai''), CallIsConfigured (OpenAI, ''openai'') ''openai'']"
  using generateScript_not_configured
    [of "\<lparr>TaskDescription = ''list files'', ScriptType = ''bash'', Provider = ''openai'',
          Model = ''gpt-4''\<rparr>" OpenAI
        "sample_env\<lparr>Provider_IsConfigured := (\<lambda>p c. fst p \<noteq> OpenAI)\<rparr>"
        "''openai''" empty_world]
  by (simp add: empty_world_def)

subsection \<open>C3\<close>

text \<open>
  Claim C3. When \<open>models.SelectBestModel\<close> returns an error in a run of \<open>main\<close> that
  reaches it, \<open>main\<close> prints the warning to standard error and goes on to generate the
  script with a request whose model is \<open>gpt-3.5-turbo\<close> for the provider \<open>openai\<close>,
  \<open>claude-3-haiku-20240307\<close> for \<open>anthropic\<close>, and \<open>llama3.2\<close> for every other
  provider name.
\<close>

theorem main_model_fallback:
  assumes "2 \<le> length (os_Args env)"
    and "os_Args env ! 1 \<notin> set special_commands"
    and "main_loadConfig env w = (cfg, w1)"
    and "models_SelectBestModel env cfg (strings_Join (tl (os_Args env)) '' '')
           (config_DetermineProvider env cfg) = Inl err"
  shows "main env w
           = main_generate env cfg
               \<lparr>TaskDescription = strings_Join (tl (os_Args env)) '' '',
                ScriptType = config_DetermineScriptType env cfg,
                Provider = config_DetermineProvider env cfg,
                Model = (if config_DetermineProvider env cfg = ''openai''
                           then ''gpt-3.5-turbo''
                         else if config_DetermineProvider env cfg = ''anthropic''
                           then ''claude-3-haiku-20240307''
                         else ''llama3.2'')\<rparr>
               (w1\<lparr>trace := trace w1
                  @ [ConfigDetermineScriptType cfg, ConfigDetermineProvider cfg,
                     ModelsSelectBestModel cfg (strings_Join (tl (os_Args env)) '' '')
                       (config_DetermineProvider env cfg),
                     Stderr (''Warning: Could not auto-select model ('' @ error_message err
                               @ ''), using fallback'' @ [CHR 0x0A])]\<rparr>)"
  using assms(3,4)
  by (simp add: main_normal_path [OF assms(1,2)] main_buildRequest_def main_selectModel_def
      getFallbackModel_def Let_def emit_def)

theorem main_model_fallback_witness:
  "main (sample_env\<lparr>config_Load := Inr ''openai'',
                 models_SelectBestModel := (\<lambda>c t p. Inl (Error ''no match''))\<rparr>) empty_world
      = main_generate (sample_env\<lparr>config_Load := Inr ''openai'',
                 models_SelectBestModel := (\<lambda>c t p. Inl (Error ''no match''))\<rparr>) ''openai''
          \<lparr>TaskDescription = ''create a hello world script'', ScriptType = ''bash'',
           Provider = ''openai'', Model = ''gpt-3.5-turbo''\<rparr>
          (empty_world\<lparr>trace := [ConfigLoad, ConfigDetermineScriptType ''openai'',
             ConfigDetermineProvider ''openai'',
             ModelsSelectBestModel ''openai'' ''create a hello world script'' ''openai'',
             Stderr (''Warning: Could not auto-select model (no match), using fallback''
                       @ [CHR 0x0A])]\<rparr>)"
  using main_model_fallback
    [of "sample_env\<lparr>config_Load := Inr ''openai'',
                 models_SelectBestModel := (\<lambda>c t p. Inl (Error ''no match''))\<rparr>"
        empty_world "''openai''" "emit ConfigLoad empty_world" "Error ''no match''"]
  by (simp add: sample_env_def special_commands_def main_loadConfig_def emit_def
      empty_world_def)

subsection \<open>C4\<close>

text \<open>
  Claim C4. When \<open>generateScript\<close> returns an error in a run of \<open>main\<close>, \<open>main\<close>
  writes "Error: MESSAGE" to standard error and exits with status 1, and nothing of
  \<open>displayScriptAndConfirm\<close> happens in that run.
\<close>

theorem main_exits_on_generation_error:
  assumes "2 \<le> length (os_Args env)"
    and "os_Args env ! 1 \<notin> set special_commands"
    and "main_buildRequest env w = (cfg, request, w1)"
    and "generateScript env cfg request w1 = (Inl err, w2)"
  shows "main env w = (emit (Stderr (''Error: '' @ error_message err @ [CHR 0x0A])) w2, Exited 1)
         \<and> exit_status (snd (main env w)) = 1
         \<and> (\<forall>ev \<in> set (drop (length (trace w)) (trace (fst (main env w)))).
               \<not> is_display_event ev)"
proof -
  have m: "main env w
             = (emit (Stderr (''Error: '' @ error_message err @ [CHR 0x0A])) w2, Exited 1)"
    using assms(3,4) by (simp add: main_normal_path [OF assms(1,2)] main_generate_def)
  from main_buildRequest_trace [of env w] assms(3)
  obtain evs1 where e1: "trace w1 = trace w @ evs1"
    and n1: "\<forall>ev \<in> set evs1. \<not> is_display_event ev" by auto
  from generateScript_trace [of env cfg request w1] assms(4)
  obtain evs2 where e2: "trace w2 = trace w1 @ evs2"
    and n2: "\<forall>ev \<in> set evs2. is_provider_event ev" by auto
  have n2': "\<forall>ev \<in> set evs2. \<not> is_display_event ev"
  proof
    fix ev assume "ev \<in> set evs2"
    with n2 have "is_provider_event ev" by simp
    then show "\<not> is_display_event ev" by (cases ev) simp_all
  qed
  have "drop (length (trace w)) (trace (fst (main env w)))
          = evs1 @ evs2 @ [Stderr (''Error: '' @ error_message err @ [CHR 0x0A])]"
    by (simp add: m trace_emit e1 e2)
  with n1 n2' m show ?thesis by auto
qed

theorem main_exits_on_generation_error_witness:
  "main (sample_env\<lparr>config_Load := Inr ''gemini''\<rparr>) empty_world
     = (empty_world\<lparr>trace := [ConfigLoad, ConfigDetermineScriptType ''gemini'',
          ConfigDetermineProvider ''gemini'',
          ModelsSelectBestModel ''gemini'' ''create a hello world script'' ''gemini'',
          Stderr (''Error: unsupported provider: gemini'' @ [CHR 0x0A])]\<rparr>, Exited 1)"
proof -
  let ?env = "sample_env\<lparr>config_Load := Inr ''gemini''\<rparr>"
  let ?req = "\<lparr>TaskDescription = ''create a hello world script'', ScriptType = ''bash'',
           Provider = ''gemini'', Model = ''codellama''\<rparr>"
  let ?w1 = "empty_world\<lparr>trace := [ConfigLoad, ConfigDetermineScriptType ''gemini'',
          ConfigDetermineProvider ''gemini'',
          ModelsSelectBestModel ''gemini'' ''create a hello world script'' ''gemini'']\<rparr>"
  have a: "2 \<le> length (os_Args ?env)" by (simp add: sample_env_def)
  have b: "os_Args ?env ! 1 \<notin> set special_commands"
    by (simp add: sample_env_def special_commands_def)
  have c: "main_buildRequest ?env empty_world = (''gemini'', ?req, ?w1)"
    by (simp add: main_buildRequest_def main_loadConfig_def main_selectModel_def
        sample_env_def empty_world_def emit_def Let_def)
  have d: "generateScript ?env ''gemini'' ?req ?w1
             = (Inl (Error ''unsupported provider: gemini''), ?w1)"
    by (simp add: generateScript_def)
  from main_exits_on_generation_error [OF a b c d]
  show ?thesis by (simp add: emit_def empty_world_def)
qed

subsection \<open>C5\<close>

text \<open>
  Claim C5. When \<open>generateScript\<close> succeeds, the request names one of the three
  providers, the response is the one \<open>GenerateScript\<close> of exactly that provider
  returned for the request, and that provider is the only one constructed, asked and
  called.
\<close>

theorem generateScript_response_from_named_provider:
  assumes "generateScript env cfg request w = (Inr response, w')"
  shows "\<exists>kind. ((Provider request = ''ollama'' \<and> kind = Ollama)
                  \<or> (Provider request = ''openai'' \<and> kind = OpenAI)
                  \<or> (Provider request = ''anthropic'' \<and> kind = Anthropic))
           \<and> Provider_IsConfigured env (kind, cfg) cfg
           \<and> Provider_GenerateScript env (kind, cfg) request = Inr response
           \<and> trace w' = trace w @ [NewProvider (kind, cfg), CallIsConfigured (kind, cfg) cfg,
                                    CallGenerateScript (kind, cfg) request]"
  using assms
  by (auto simp add: generateScript_def Let_def trace_emit providers_NewOllamaProvider_def
      providers_NewOpenAIProvider_def providers_NewAnthropicProvider_def
      split: if_splits)

theorem generateScript_response_from_named_provider_witness:
  "\<exists>kind. ((''ollama'' = ''ollama'' \<and> kind = Ollama)
            \<or> (''ollama'' = ''openai'' \<and> kind = OpenAI)
            \<or> (''ollama'' = ''anthropic'' \<and> kind = Anthropic))
     \<and> Provider_GenerateScript sample_env (kind, ''ollama'')
          \<lparr>TaskDescription = ''list files'', ScriptType = ''bash'', Provider = ''ollama'',
           Model = ''llama3.2''\<rparr>
        = Inr \<lparr>resp_TaskDescription = ''list files'', resp_Model = ''llama3.2'',
               resp_Provider = ''ollama'', resp_ScriptType = ''bash'',
               resp_Script = ''echo hello''\<rparr>"
proof -
  have run: "generateScript sample_env ''ollama''
          \<lparr>TaskDescription = ''list files'', ScriptType = ''bash'', Provider = ''ollama'',
           Model = ''llama3.2''\<rparr> empty_world
        = (Inr \<lparr>resp_TaskDescription = ''list files'', resp_Model = ''llama3.2'',
                resp_Provider = ''ollama'', resp_ScriptType = ''bash'',
                resp_Script = ''echo hello''\<rparr>,
           empty_world\<lparr>trace := [NewProvider (Ollama, ''ollama''),
              CallIsConfigured (Ollama, ''ollama'') ''ollama'',
              CallGenerateScript (Ollama, ''ollama'')
                \<lparr>TaskDescription = ''list files'', ScriptType = ''bash'',
                 Provider = ''ollama'', Model = ''llama3.2''\<rparr>]\<rparr>)"
    by (simp add: generateScript_def sample_env_def empty_world_def emit_def Let_def
        providers_NewOllamaProvider_def echo_response_def)
  from generateScript_response_from_named_provider [OF run]
  show ?thesis by auto
qed

subsection \<open>C6\<close>

text \<open>
  Claim C6. When \<open>config.Load\<close> fails in a run of \<open>main\<close> that reaches it, \<open>main\<close>
  creates the default configuration, calls \<open>config.Save\<close> on it and continues with
  the default configuration; whatever \<open>config.Save\<close> returns, the run of \<open>main\<close> is
  the same (the same output, the same calls, the same way of ending).
\<close>

theorem main_discards_save_error:
  assumes "2 \<le> length (os_Args env)"
    and "os_Args env ! 1 \<notin> set special_commands"
    and "config_Load env = Inl err"
  shows "main_loadConfig env w
           = (config_CreateDefault env,
              w\<lparr>trace := trace w @ [ConfigLoad, ConfigCreateDefault,
                                      ConfigSave (config_CreateDefault env)]\<rparr>)
         \<and> main env w
           = (case main_buildRequest env w of
                (cfg, request, w1) \<Rightarrow> main_generate env cfg request w1)
         \<and> fst (main_buildRequest env w) = config_CreateDefault env
         \<and> main (env\<lparr>config_Save := save\<rparr>) w = main env w"
proof -
  have l: "main_loadConfig env w
           = (config_CreateDefault env,
              w\<lparr>trace := trace w @ [ConfigLoad, ConfigCreateDefault,
                                      ConfigSave (config_CreateDefault env)]\<rparr>)"
    using assms(3) by (simp add: main_loadConfig_def Let_def emit_def)
  have b: "fst (main_buildRequest env w) = config_CreateDefault env"
    by (simp add: main_buildRequest_def l Let_def split: prod.splits)
  have s: "main (env\<lparr>config_Save := save\<rparr>) w = main env w"
    by (simp add: main_def installAlias_config_Save uninstallAlias_config_Save
        main_buildRequest_config_Save main_generate_config_Save Let_def split: prod.splits)
  from l b s main_normal_path [OF assms(1,2)] show ?thesis by simp
qed

theorem main_discards_save_error_witness:
  "main_loadConfig (sample_env\<lparr>config_Load := Inl (Error ''no config file'')\<rparr>) empty_world
     = (''ollama'', empty_world\<lparr>trace := [ConfigLoad, ConfigCreateDefault, ConfigSave ''ollama'']\<rparr>)
   \<and> main (sample_env\<lparr>config_Load := Inl (Error ''no config file''),
                       config_Save := (\<lambda>cfg. Some (Error ''read-only file system''))\<rparr>)
        empty_world
     = main (sample_env\<lparr>config_Load := Inl (Error ''no config file'')\<rparr>) empty_world"
  using main_discards_save_error
    [of "sample_env\<lparr>config_Load := Inl (Error ''no config file'')\<rparr>"
        "Error ''no config file''" empty_world "\<lambda>cfg. Some (Error ''read-only file system'')"]
  by (simp add: sample_env_def special_commands_def empty_world_def)

subsection \<open>C7\<close>

text \<open>
  Claim C7. Whenever \<open>main\<close> builds a request (there is an argument after the program
  name and the first one is not a special command), its task description is the
  arguments after the program name joined with single spaces, its provider is
  \<open>config.DetermineProvider\<close> of the configuration (the loaded one, or the default one
  when loading failed), its script type is \<open>config.DetermineScriptType\<close> of that
  configuration, and it is the request with which the script is generated.
\<close>

theorem main_request_fields:
  assumes "2 \<le> length (os_Args env)"
    and "os_Args env ! 1 \<notin> set special_commands"
    and "main_buildRequest env w = (cfg, request, w1)"
  shows "TaskDescription request = strings_Join (tl (os_Args env)) '' ''
         \<and> cfg = (case config_Load env of Inr loaded \<Rightarrow> loaded
                                          | Inl err \<Rightarrow> config_CreateDefault env)
         \<and> Provider request = config_DetermineProvider env cfg
         \<and> ScriptType request = config_DetermineScriptType env cfg
         \<and> main env w = main_generate env cfg request w1"
  using assms(3)
  by (auto simp add: main_normal_path [OF assms(1,2)] main_buildRequest_def
      main_loadConfig_def Let_def split: prod.splits sum.splits)

theorem main_request_fields_witness:
  "strings_Join (tl (os_Args sample_env)) '' '' = ''create a hello world script''
   \<and> main sample_env empty_world
     = main_generate sample_env ''ollama''
         \<lparr>TaskDescription = ''create a hello world script'', ScriptType = ''bash'',
          Provider = ''ollama'', Model = ''codellama''\<rparr>
         (empty_world\<lparr>trace := [ConfigLoad, ConfigDetermineScriptType ''ollama'',
            ConfigDetermineProvider ''ollama'',
            ModelsSelectBestModel ''ollama'' ''create a hello world script'' ''ollama'']\<rparr>)"
proof -
  let ?req = "\<lparr>TaskDescription = ''create a hello world script'', ScriptType = ''bash'',
           Provider = ''ollama'', Model = ''codellama''\<rparr>"
  let ?w1 = "empty_world\<lparr>trace := [ConfigLoad, ConfigDetermineScriptType ''ollama'',
          ConfigDetermineProvider ''ollama'',
          ModelsSelectBestModel ''ollama'' ''create a hello world script'' ''ollama'']\<rparr>"
  have a: "2 \<le> length (os_Args sample_env)" by (simp add: sample_env_def)
  have b: "os_Args sample_env ! 1 \<notin> set special_commands"
    by (simp add: sample_env_def special_commands_def)
  have c: "main_buildRequest sample_env empty_world = (''ollama'', ?req, ?w1)"
    by (simp add: main_buildRequest_def main_loadConfig_def main_selectModel_def
        sample_env_def empty_world_def emit_def Let_def)
  from main_request_fields [OF a b c]
  show ?thesis by simp
qed

subsection \<open>C8\<close>

text \<open>
  Claim C8. Running \<open>installAlias\<close> twice in a row in the same environment: the second
  run leaves the files as the first run left them and prints what the first run
  printed. When the executable path is known and \<open>pls.bat\<close> can be written, neither
  run prints a failure, and \<open>pls.bat\<close> holds the same shim (\<open>batContent\<close> of the
  executable path) after the first and after the second run; when \<open>ol.bat\<close> can be
  written too, no warning is printed either.
\<close>

theorem installAlias_idempotent:
  "files (installAlias env (installAlias env w)) = files (installAlias env w)
   \<and> drop (length (trace (installAlias env w))) (trace (installAlias env (installAlias env w)))
     = drop (length (trace w)) (trace (installAlias env w))
   \<and> (os_Executable env = Inr execPath
        \<and> os_write_error env (filepath_Join env (filepath_Dir env execPath) ''pls.bat'') = None
      \<longrightarrow> (\<forall>ev \<in> set (drop (length (trace w)) (trace (installAlias env w))).
             \<not> is_install_failure ev)
          \<and> files (installAlias env w) (filepath_Join env (filepath_Dir env execPath) ''pls.bat'')
            = Some (batContent execPath)
          \<and> files (installAlias env (installAlias env w))
              (filepath_Join env (filepath_Dir env execPath) ''pls.bat'')
            = Some (batContent execPath)
          \<and> (os_write_error env (filepath_Join env (filepath_Dir env execPath) ''ol.bat'') = None
              \<longrightarrow> drop (length (trace w)) (trace (installAlias env w))
                  = [UiPrintRainbowBanner, Stdout InstallingAlias, Stdout CreatedPls,
                     Stdout CreatedOl, UiPrintInstallationSuccess]))"
proof (cases "os_Executable env")
  case (Inl err)
  show ?thesis
    by (simp add: installAlias_no_executable [OF Inl] Inl)
next
  case (Inr path)
  show ?thesis
  proof (cases "os_write_error env (filepath_Join env (filepath_Dir env path) ''pls.bat'')")
    case (Some err)
    then show ?thesis
      by (auto simp add: installAlias_pls_failed [OF Inr Some] Inr)
  next
    case None
    then show ?thesis
      by (auto simp add: installAlias_pls_written [OF Inr None] Inr split: option.splits)
  qed
qed

theorem installAlias_idempotent_witness:
  "files (installAlias sample_env empty_world) ''/opt/please/pls.bat''
     = Some (''@echo off'' @ [CHR 0x0A, CHR 0x22] @ ''/opt/please/please'' @ [CHR 0x22]
               @ '' %*'' @ [CHR 0x0A])
   \<and> files (installAlias sample_env (installAlias sample_env empty_world)) ''/opt/please/pls.bat''
     = Some (''@echo off'' @ [CHR 0x0A, CHR 0x22] @ ''/opt/please/please'' @ [CHR 0x22]
               @ '' %*'' @ [CHR 0x0A])
   \<and> trace (installAlias sample_env empty_world)
     = [UiPrintRainbowBanner, Stdout InstallingAlias, Stdout CreatedPls, Stdout CreatedOl,
        UiPrintInstallationSuccess]"
  using installAlias_idempotent [of sample_env empty_world "''/opt/please/please''"]
  by (simp add: sample_env_def slash_Dir_def slash_Join_def batContent_def empty_world_def)

subsection \<open>C9\<close>

text \<open>
  Claim C9. When \<open>os.Remove\<close> fails on \<open>pls.bat\<close> and on \<open>ol.bat\<close> because the file
  does not exist, \<open>uninstallAlias\<close> prints "pls.bat not found" and "ol.bat not found",
  changes nothing else and returns; \<open>main\<close>, called with \<open>--uninstall-alias\<close>, then
  returns too, with exit status 0.
\<close>

theorem uninstallAlias_not_installed:
  assumes "os_Executable env = Inr execPath"
    and "fst (os_Remove env (filepath_Join env (filepath_Dir env execPath) ''pls.bat'') w)
           = Some err1"
    and "os_IsNotExist err1"
    and "fst (os_Remove env (filepath_Join env (filepath_Dir env execPath) ''ol.bat'') w)
           = Some err2"
    and "os_IsNotExist err2"
  shows "uninstallAlias env w
           = w\<lparr>trace := trace w @ [UiPrintRainbowBanner, Stdout RemovingAliases,
                                    Stdout PlsNotFound, Stdout OlNotFound]\<rparr>
         \<and> (2 \<le> length (os_Args env) \<and> os_Args env ! 1 = ''--uninstall-alias''
            \<longrightarrow> main env w = (uninstallAlias env w, Returned)
                \<and> exit_status (snd (main env w)) = 0)"
proof -
  have u: "uninstallAlias env w
           = w\<lparr>trace := trace w @ [UiPrintRainbowBanner, Stdout RemovingAliases,
                                    Stdout PlsNotFound, Stdout OlNotFound]\<rparr>"
    using assms(1,3,5)
    by (simp add: uninstallAlias_def emit_def Let_def os_Remove_not_exist [OF assms(2)]
        os_Remove_not_exist [OF assms(4)])
  have m: "2 \<le> length (os_Args env) \<and> os_Args env ! 1 = ''--uninstall-alias''
            \<longrightarrow> main env w = (uninstallAlias env w, Returned)"
    by (auto simp add: main_def Let_def)
  from u m show ?thesis by simp
qed

theorem uninstallAlias_not_installed_witness:
  "main (sample_env\<lparr>os_Args := [''pls'', ''--uninstall-alias'']\<rparr>) empty_world
     = (empty_world\<lparr>trace := [UiPrintRainbowBanner, Stdout RemovingAliases,
                                Stdout PlsNotFound, Stdout OlNotFound]\<rparr>, Returned)"
proof -
  let ?env = "sample_env\<lparr>os_Args := [''pls'', ''--uninstall-alias'']\<rparr>"
  have a: "os_Executable ?env = Inr ''/opt/please/please''"
    by (simp add: sample_env_def)
  have b: "fst (os_Remove ?env (filepath_Join ?env (filepath_Dir ?env ''/opt/please/please'')
                                  ''pls.bat'') empty_world)
             = Some (NotExistError ''remove /opt/please/pls.bat: file does not exist'')"
    by (simp add: os_Remove_def sample_env_def slash_Dir_def slash_Join_def empty_world_def)
  have c: "fst (os_Remove ?env (filepath_Join ?env (filepath_Dir ?env ''/opt/please/please'')
                                  ''ol.bat'') empty_world)
             = Some (NotExistError ''remove /opt/please/ol.bat: file does not exist'')"
    by (simp add: os_Remove_def sample_env_def slash_Dir_def slash_Join_def empty_world_def)
  have d: "os_IsNotExist (NotExistError ''remove /opt/please/pls.bat: file does not exist'')"
    by simp
  have e: "os_IsNotExist (NotExistError ''remove /opt/please/ol.bat: file does not exist'')"
    by simp
  have f: "2 \<le> length (os_Args ?env) \<and> os_Args ?env ! 1 = ''--uninstall-alias''"
    by (simp add: sample_env_def)
  from uninstallAlias_not_installed [OF a b d c e] f
  show ?thesis by (simp add: empty_world_def)
qed

subsection \<open>C10\<close>

text \<open>
  Claim C10. Let the command line have a first argument after the program name. When
  that argument is a special command, \<open>main\<close> runs its handler and returns, and no
  event of the pipeline (configuration, model selection, provider) happens. When it
  is not, \<open>main\<close> builds the request and generates the script, the task description
  is all the arguments joined with spaces, whatever the later arguments are (a special
  command among them is part of the task description), and no handler of a special
  command runs.
\<close>

theorem main_special_commands_first_argument_only:
  assumes "os_Args env = prog # first # rest"
  shows "(first \<in> set special_commands \<longrightarrow>
            main env w
              = ((if first = ''--install-alias'' then installAlias env w
                  else if first = ''--uninstall-alias'' then uninstallAlias env w
                  else if first = ''--version'' then emit UiShowVersion w
                  else emit UiShowHelp w), Returned)
            \<and> (\<forall>ev \<in> set (drop (length (trace w)) (trace (fst (main env w)))).
                  \<not> is_pipeline_event ev))
         \<and> (first \<notin> set special_commands \<longrightarrow>
            main env w
              = (case main_buildRequest env w of
                   (cfg, request, w1) \<Rightarrow> main_generate env cfg request w1)
            \<and> TaskDescription (fst (snd (main_buildRequest env w)))
              = strings_Join (first # rest) '' ''
            \<and> (\<forall>ev \<in> set (drop (length (trace w)) (trace (fst (main env w)))).
                  \<not> is_command_event ev))"
proof (cases "first \<in> set special_commands")
  case True
  have m: "main env w
              = ((if first = ''--install-alias'' then installAlias env w
                  else if first = ''--uninstall-alias'' then uninstallAlias env w
                  else if first = ''--version'' then emit UiShowVersion w
                  else emit UiShowHelp w), Returned)"
    using assms True by (auto simp add: main_def special_commands_def Let_def)
  have "\<forall>ev \<in> set (drop (length (trace w)) (trace (fst (main env w)))).
                  \<not> is_pipeline_event ev"
    using installAlias_trace [of env w] uninstallAlias_trace [of env w]
    by (auto simp add: m trace_emit)
  with m True show ?thesis by simp
next
  case False
  have a: "2 \<le> length (os_Args env)" using assms by simp
  have b: "os_Args env ! 1 \<notin> set special_commands" using assms False by simp
  note m = main_normal_path [OF a b, of w]
  have t: "TaskDescription (fst (snd (main_buildRequest env w)))
              = strings_Join (first # rest) '' ''"
    using assms by (simp add: main_buildRequest_def Let_def split: prod.splits)
  obtain cfg request w1 where br: "main_buildRequest env w = (cfg, request, w1)"
    by (cases "main_buildRequest env w") auto
  from main_buildRequest_trace [of env w] br
  obtain evs1 where e1: "trace w1 = trace w @ evs1"
    and n1: "\<forall>ev \<in> set evs1. \<not> is_command_event ev" by auto
  from main_generate_trace [of env cfg request w1]
  obtain evs2 where e2: "trace (fst (main_generate env cfg request w1)) = trace w1 @ evs2"
    and n2: "\<forall>ev \<in> set evs2. \<not> is_command_event ev" by auto
  have "drop (length (trace w)) (trace (fst (main env w))) = evs1 @ evs2"
    by (simp add: m br e1 e2)
  with n1 n2 have "\<forall>ev \<in> set (drop (length (trace w)) (trace (fst (main env w)))).
                  \<not> is_command_event ev" by auto
  with m t False show ?thesis by simp
qed

theorem main_special_commands_first_argument_only_witness:
  "main (sample_env\<lparr>os_Args := [''pls'', ''--version'']\<rparr>) empty_world
     = (empty_world\<lparr>trace := [UiShowVersion]\<rparr>, Returned)
   \<and> TaskDescription (fst (snd (main_buildRequest
        (sample_env\<lparr>os_Args := [''pls'', ''show'', ''--version'']\<rparr>) empty_world)))
     = ''show --version''"
  using main_special_commands_first_argument_only
      [of "sample_env\<lparr>os_Args := [''pls'', ''--version'']\<rparr>" "''pls''" "''--version''" "[]"
          empty_world]
    main_special_commands_first_argument_only
      [of "sample_env\<lparr>os_Args := [''pls'', ''show'', ''--version'']\<rparr>" "''pls''" "''show''"
          "[''--version'']" empty_world]
  by (simp add: sample_env_def special_commands_def emit_def empty_world_def)

end
